theory Spec2Isabelle
  imports Main
begin

section \<open>dbus-signal.c: subscribing to NameLost, acquiring and releasing a bus name\<close>

text \<open>
  The program is a client of two libraries, D-Bus (with its GLib binding) and the GLib
  main loop. Their answers are the only input of the program: they are collected in a
  record \<open>env\<close>. Everything the program does to the outside (the lines it prints, the
  library calls it makes) is appended to the state record \<open>world\<close>, which also holds
  the two global variables of the file and the sources installed in the main loop.
\<close>

subsection \<open>Constants of the D-Bus headers\<close>

text \<open>
  The values of \<^verbatim>\<open>dbus/dbus-shared.h\<close>. The source only compares a result code with
  them in \<^verbatim>\<open>switch\<close> statements, whose case labels a C compiler requires to be
  pairwise distinct.
\<close>

definition DBUS_NAME_FLAG_ALLOW_REPLACEMENT :: nat where
  "DBUS_NAME_FLAG_ALLOW_REPLACEMENT = 1"

definition DBUS_REQUEST_NAME_REPLY_PRIMARY_OWNER :: int where
  "DBUS_REQUEST_NAME_REPLY_PRIMARY_OWNER = 1"

definition DBUS_REQUEST_NAME_REPLY_IN_QUEUE :: int where
  "DBUS_REQUEST_NAME_REPLY_IN_QUEUE = 2"

definition DBUS_REQUEST_NAME_REPLY_EXISTS :: int where
  "DBUS_REQUEST_NAME_REPLY_EXISTS = 3"

definition DBUS_REQUEST_NAME_REPLY_ALREADY_OWNER :: int where
  "DBUS_REQUEST_NAME_REPLY_ALREADY_OWNER = 4"

definition DBUS_RELEASE_NAME_REPLY_RELEASED :: int where
  "DBUS_RELEASE_NAME_REPLY_RELEASED = 1"

definition DBUS_RELEASE_NAME_REPLY_NON_EXISTENT :: int where
  "DBUS_RELEASE_NAME_REPLY_NON_EXISTENT = 2"

definition DBUS_RELEASE_NAME_REPLY_NOT_OWNER :: int where
  "DBUS_RELEASE_NAME_REPLY_NOT_OWNER = 3"

subsection \<open>Data\<close>

text \<open>
  A C pointer is an \<open>option\<close>: \<open>None\<close> is \<^verbatim>\<open>NULL\<close>, \<open>Some x\<close> points to an
  object whose content is \<open>x\<close>. Reading a field through \<open>None\<close> is the fault
  \<open>NullDereference\<close>.
\<close>

record GError =
  g_message :: string

record DBusError =
  name :: string
  message :: string

datatype DBusGConnection = DBusGConnection nat

datatype DBusConnection = DBusConnection nat

datatype DBusBusType = DBUS_BUS_SESSION | DBUS_BUS_SYSTEM | DBUS_BUS_STARTER

datatype GType = G_TYPE_STRING | G_TYPE_INT | G_TYPE_BOOLEAN

datatype GValue = GString string | GInt int | GBoolean bool

fun g_value_type :: "GValue \<Rightarrow> GType" where
  "g_value_type (GString s) = G_TYPE_STRING"
| "g_value_type (GInt i) = G_TYPE_INT"
| "g_value_type (GBoolean b) = G_TYPE_BOOLEAN"

text \<open>An untyped \<^verbatim>\<open>gpointer\<close>: the program passes \<^verbatim>\<open>NULL\<close> or the connection.\<close>

datatype gpointer = GNull | GConnectionPtr DBusGConnection

text \<open>The functions of the file that are handed to the libraries as function pointers.\<close>

datatype GCallback = OnNameLost

datatype GSourceFunc = ReleaseName

record DBusGProxy =
  proxy_name :: string
  proxy_path :: string
  proxy_interface :: string

text \<open>A handler connected to a signal of a proxy, with the context pointer it is to be given.\<close>

record signal_connection =
  sc_proxy :: DBusGProxy
  sc_signal :: string
  sc_handler :: GCallback
  sc_data :: gpointer

text \<open>A timeout source of the main loop; times are in milliseconds.\<close>

record timeout_source =
  ts_interval :: nat
  ts_due :: nat
  ts_function :: GSourceFunc
  ts_data :: gpointer

record GMainLoop =
  is_running :: bool

datatype stream = Stdout | Stderr

datatype printf_arg = ArgString string | ArgInt int

text \<open>One call of \<^verbatim>\<open>g_print\<close> or \<^verbatim>\<open>g_printerr\<close>: the format string and its arguments.\<close>

record printed =
  out_stream :: stream
  out_format :: string
  out_args :: "printf_arg list"

text \<open>The library calls, as they are recorded in the trace.\<close>

datatype call =
    Call_g_type_init
  | Call_dbus_g_bus_get DBusBusType
  | Call_g_error_free
  | Call_exit int
  | Call_dbus_g_connection_get_connection DBusGConnection
  | Call_dbus_bus_request_name "DBusConnection option" string nat "DBusError option"
  | Call_dbus_bus_release_name "DBusConnection option" string "DBusError option"
  | Call_dbus_error_free
  | Call_g_main_loop_new
  | Call_dbus_g_proxy_new_for_name DBusGConnection string string string
  | Call_dbus_g_proxy_add_signal DBusGProxy string "GType list"
  | Call_dbus_g_proxy_connect_signal DBusGProxy string GCallback gpointer
  | Call_g_timeout_add nat GSourceFunc gpointer
  | Call_g_main_loop_run
  | Call_g_main_loop_quit
  | Call_g_object_unref DBusGProxy

record world =
  mainloop :: "GMainLoop option"
  con :: "DBusConnection option"
  out :: "printed list"
  calls :: "call list"
  now :: nat
  declared_signals :: "(DBusGProxy \<times> string \<times> GType list) list"
  connections :: "signal_connection list"
  timeouts :: "timeout_source list"

definition initial_world :: world where
  "initial_world =
     \<lparr>mainloop = None, con = None, out = [], calls = [], now = 0,
      declared_signals = [], connections = [], timeouts = []\<rparr>"

text \<open>A signal on the bus, as the daemon or another client emits it.\<close>

record dbus_signal =
  sig_sender :: string
  sig_path :: string
  sig_interface :: string
  sig_member :: string
  sig_args :: "GValue list"

text \<open>
  What the main loop wakes up for: time has passed (so many milliseconds), or a signal
  has arrived on the connection.
\<close>

datatype event = Elapse nat | Emit dbus_signal

text \<open>
  The answers of the outside world. \<open>bus_get_reply\<close> is the error of a failed
  connection or the connection; \<open>request_name_reply\<close> and \<open>release_name_reply\<close>
  are the result codes of the two name calls (the latter for the k-th release call, counted
  from 0), \<open>request_name_error\<close> and \<open>release_name_error\<close> the error the library
  stores when it is given somewhere to store it; \<open>events\<close> is what the main loop
  receives, in order. After the last event nothing happens any more.
\<close>

record env =
  bus_get_reply :: "GError + DBusGConnection"
  request_name_reply :: int
  request_name_error :: DBusError
  release_name_reply :: "nat \<Rightarrow> int"
  release_name_error :: DBusError
  events :: "event list"

datatype fault = NullDereference

text \<open>
  How a run ends: the process exits with a status, it stops at a fault, or the main loop
  never returns.
\<close>

datatype outcome = Exit int | Fault fault | Blocked

subsection \<open>The library functions\<close>

definition g_print :: "string \<Rightarrow> printf_arg list \<Rightarrow> world \<Rightarrow> world" where
  "g_print fmt args w =
     w\<lparr>out := out w @ [\<lparr>out_stream = Stdout, out_format = fmt, out_args = args\<rparr>]\<rparr>"

definition g_printerr :: "string \<Rightarrow> printf_arg list \<Rightarrow> world \<Rightarrow> world" where
  "g_printerr fmt args w =
     w\<lparr>out := out w @ [\<lparr>out_stream = Stderr, out_format = fmt, out_args = args\<rparr>]\<rparr>"

definition record_call :: "call \<Rightarrow> world \<Rightarrow> world" where
  "record_call c w = w\<lparr>calls := calls w @ [c]\<rparr>"

text \<open>
  The program has one main loop, the object the global \<open>mainloop\<close> points to.
  \<^verbatim>\<open>g_main_loop_quit\<close> clears the running flag of the loop it is given; given
  \<^verbatim>\<open>NULL\<close> it returns without effect.
\<close>

definition g_main_loop_new :: "bool \<Rightarrow> world \<Rightarrow> GMainLoop option \<times> world" where
  "g_main_loop_new running w = (Some \<lparr>is_running = running\<rparr>, record_call Call_g_main_loop_new w)"

definition g_main_loop_quit :: "GMainLoop option \<Rightarrow> world \<Rightarrow> world" where
  "g_main_loop_quit loop w =
     record_call Call_g_main_loop_quit
       (case loop of
          None \<Rightarrow> w
        | Some l \<Rightarrow> w\<lparr>mainloop := Some (l\<lparr>is_running := False\<rparr>)\<rparr>)"

text \<open>
  \<^verbatim>\<open>dbus_g_bus_get\<close> returns the connection, or \<^verbatim>\<open>NULL\<close> with the error stored
  through the \<^verbatim>\<open>GError **\<close> it was given.
\<close>

definition dbus_g_bus_get ::
  "env \<Rightarrow> DBusBusType \<Rightarrow> world \<Rightarrow> DBusGConnection option \<times> GError option \<times> world" where
  "dbus_g_bus_get e t w =
     (case bus_get_reply e of
        Inl err \<Rightarrow> (None, Some err, record_call (Call_dbus_g_bus_get t) w)
      | Inr c \<Rightarrow> (Some c, None, record_call (Call_dbus_g_bus_get t) w))"

fun dbus_g_connection_get_connection :: "DBusGConnection \<Rightarrow> DBusConnection" where
  "dbus_g_connection_get_connection (DBusGConnection n) = DBusConnection n"

text \<open>
  The two name calls take a \<^verbatim>\<open>DBusError *\<close> by value. They return the result code
  and what the pointer points to after the call: a \<^verbatim>\<open>NULL\<close> pointer is still
  \<^verbatim>\<open>NULL\<close>, and an error object is filled in when the result is -1.
\<close>

definition dbus_bus_request_name ::
  "env \<Rightarrow> DBusConnection option \<Rightarrow> string \<Rightarrow> nat \<Rightarrow> DBusError option \<Rightarrow> world
     \<Rightarrow> int \<times> DBusError option \<times> world" where
  "dbus_bus_request_name e c nm flags error w =
     (request_name_reply e,
      map_option (\<lambda>old. if request_name_reply e = - 1 then request_name_error e else old) error,
      record_call (Call_dbus_bus_request_name c nm flags error) w)"

definition release_calls :: "call list \<Rightarrow> call list" where
  "release_calls cs =
     filter (\<lambda>c. case c of Call_dbus_bus_release_name _ _ _ \<Rightarrow> True | _ \<Rightarrow> False) cs"

definition dbus_bus_release_name ::
  "env \<Rightarrow> DBusConnection option \<Rightarrow> string \<Rightarrow> DBusError option \<Rightarrow> world
     \<Rightarrow> int \<times> DBusError option \<times> world" where
  "dbus_bus_release_name e c nm error w =
     (let r = release_name_reply e (length (release_calls (calls w)))
      in (r,
          map_option (\<lambda>old. if r = - 1 then release_name_error e else old) error,
          record_call (Call_dbus_bus_release_name c nm error) w))"

text \<open>
  A proxy stands for a remote object. A signal is first declared with its argument types
  and then connected to a handler; connecting a signal that was never declared is refused.
  Releasing the proxy removes its handlers.
\<close>

definition dbus_g_proxy_new_for_name ::
  "DBusGConnection \<Rightarrow> string \<Rightarrow> string \<Rightarrow> string \<Rightarrow> world \<Rightarrow> DBusGProxy \<times> world" where
  "dbus_g_proxy_new_for_name c nm path iface w =
     (\<lparr>proxy_name = nm, proxy_path = path, proxy_interface = iface\<rparr>,
      record_call (Call_dbus_g_proxy_new_for_name c nm path iface) w)"

definition dbus_g_proxy_add_signal ::
  "DBusGProxy \<Rightarrow> string \<Rightarrow> GType list \<Rightarrow> world \<Rightarrow> world" where
  "dbus_g_proxy_add_signal proxy sg types w =
     record_call (Call_dbus_g_proxy_add_signal proxy sg types)
       (w\<lparr>declared_signals := declared_signals w @ [(proxy, sg, types)]\<rparr>)"

definition signal_declared :: "DBusGProxy \<Rightarrow> string \<Rightarrow> world \<Rightarrow> bool" where
  "signal_declared proxy sg w =
     list_ex (\<lambda>(p, s, types). p = proxy \<and> s = sg) (declared_signals w)"

definition dbus_g_proxy_connect_signal ::
  "DBusGProxy \<Rightarrow> string \<Rightarrow> GCallback \<Rightarrow> gpointer \<Rightarrow> world \<Rightarrow> world" where
  "dbus_g_proxy_connect_signal proxy sg handler data w =
     record_call (Call_dbus_g_proxy_connect_signal proxy sg handler data)
       (if signal_declared proxy sg w
        then w\<lparr>connections := connections w @
                 [\<lparr>sc_proxy = proxy, sc_signal = sg, sc_handler = handler, sc_data = data\<rparr>]\<rparr>
        else w)"

definition g_object_unref :: "DBusGProxy \<Rightarrow> world \<Rightarrow> world" where
  "g_object_unref proxy w =
     record_call (Call_g_object_unref proxy)
       (w\<lparr>connections := filter (\<lambda>c. sc_proxy c \<noteq> proxy) (connections w)\<rparr>)"

text \<open>
  \<^verbatim>\<open>g_timeout_add\<close> installs a source that is due one interval from now.
\<close>

definition g_timeout_add :: "nat \<Rightarrow> GSourceFunc \<Rightarrow> gpointer \<Rightarrow> world \<Rightarrow> world" where
  "g_timeout_add interval f data w =
     record_call (Call_g_timeout_add interval f data)
       (w\<lparr>timeouts := timeouts w @
            [\<lparr>ts_interval = interval, ts_due = now w + interval,
              ts_function = f, ts_data = data\<rparr>]\<rparr>)"

subsection \<open>The callbacks of the program\<close>

text \<open>
  \<^verbatim>\<open>void onNameLost()\<close> (lines 39 to 42). It is declared without parameters and uses
  none of what the signal marshaller passes: the proxy, the arguments of the signal and
  the context pointer.
\<close>

definition onNameLost :: "DBusGProxy \<Rightarrow> GValue list \<Rightarrow> gpointer \<Rightarrow> world \<Rightarrow> world" where
  "onNameLost proxy args data w =
     (let w1 = g_print ''!!! We lost our Name !!!\<newline>'' [] w
      in g_main_loop_quit (mainloop w1) w1)"

text \<open>
  Lines 66 to 90 of \<^verbatim>\<open>releaseName\<close>: the \<^verbatim>\<open>switch\<close> on the result code, then the
  test for -1. \<open>error\<close> is the local pointer of that name as it is after the release call.
\<close>

definition releaseName_report :: "int \<Rightarrow> DBusError option \<Rightarrow> world \<Rightarrow> world" where
  "releaseName_report retval error w =
     (let w1 =
        (if retval = DBUS_RELEASE_NAME_REPLY_RELEASED then
           g_printerr ''releaseName(): Name org.DBusTest.SignalTest was released successfully\<newline>'' [] w
         else if retval = DBUS_RELEASE_NAME_REPLY_NOT_OWNER then
           g_printerr ''releaseName(): Name org.DBusTest.SignalTest is not owned by this app!\<newline>'' [] w
         else if retval = DBUS_RELEASE_NAME_REPLY_NON_EXISTENT then
           g_printerr ''releaseName(): Name org.DBusTest.SignalTest does not exist!\<newline>'' [] w
         else
           g_printerr ''releaseName(): Unknown exit status %d\<newline>'' [ArgInt retval] w)
      in if retval = - 1 then
           (case error of
              None \<Rightarrow>
                g_printerr ''releaseName(): Something fishy. We got an exit status of -1 but error == NULL!\<newline>'' [] w1
            | Some err \<Rightarrow>
                (let w2 = g_printerr ''Could not release name org.DBusTest.SignalTest: %s\<newline>''
                            [ArgString (message err)] w1;
                     w3 = g_printerr ''This program may not terminate...\<newline>'' [] w2
                 in record_call Call_dbus_error_free w3))
         else w1)"

text \<open>
  \<^verbatim>\<open>gboolean releaseName(gpointer my_data)\<close> (lines 56 to 94). The local \<open>error\<close> is
  set to \<^verbatim>\<open>NULL\<close> and passed by value; the connection is the global \<open>con\<close>.
\<close>

definition releaseName :: "env \<Rightarrow> gpointer \<Rightarrow> world \<Rightarrow> bool \<times> world" where
  "releaseName e my_data w =
     (let error = None;
          (retval, error, w1) = dbus_bus_release_name e (con w) ''org.DBusTest.SignalTest'' error w
      in (False, releaseName_report retval error w1))"

subsection \<open>The main loop\<close>

definition call_source_func :: "env \<Rightarrow> GSourceFunc \<Rightarrow> gpointer \<Rightarrow> world \<Rightarrow> bool \<times> world" where
  "call_source_func e f data w = (case f of ReleaseName \<Rightarrow> releaseName e data w)"

definition call_handler ::
  "GCallback \<Rightarrow> DBusGProxy \<Rightarrow> GValue list \<Rightarrow> gpointer \<Rightarrow> world \<Rightarrow> world" where
  "call_handler h proxy args data w = (case h of OnNameLost \<Rightarrow> onNameLost proxy args data w)"

text \<open>
  The timeout sources that are due are dispatched in the order of their installation. A
  source whose function returns false is removed; one whose function returns true is due
  again one interval later. The result is the list of the sources that remain.
\<close>

fun dispatch_timeouts ::
  "env \<Rightarrow> timeout_source list \<Rightarrow> world \<Rightarrow> timeout_source list \<times> world" where
  "dispatch_timeouts e [] w = ([], w)"
| "dispatch_timeouts e (t # ts) w =
     (if ts_due t \<le> now w then
        (let (again, w1) = call_source_func e (ts_function t) (ts_data t) w;
             (rest, w2) = dispatch_timeouts e ts w1
         in (if again then t\<lparr>ts_due := now w + ts_interval t\<rparr> # rest else rest, w2))
      else
        (let (rest, w2) = dispatch_timeouts e ts w in (t # rest, w2)))"

text \<open>
  A signal reaches a handler when it comes from the object of the handler's proxy, has the
  name the handler is connected to, and carries arguments of the types declared for it.
\<close>

definition signal_matches :: "dbus_signal \<Rightarrow> signal_connection \<Rightarrow> world \<Rightarrow> bool" where
  "signal_matches s c w \<longleftrightarrow>
     sig_sender s = proxy_name (sc_proxy c) \<and>
     sig_path s = proxy_path (sc_proxy c) \<and>
     sig_interface s = proxy_interface (sc_proxy c) \<and>
     sig_member s = sc_signal c \<and>
     list_ex (\<lambda>(p, sg, types). p = sc_proxy c \<and> sg = sc_signal c \<and>
                 types = map g_value_type (sig_args s)) (declared_signals w)"

fun deliver_signal :: "dbus_signal \<Rightarrow> signal_connection list \<Rightarrow> world \<Rightarrow> world" where
  "deliver_signal s [] w = w"
| "deliver_signal s (c # cs) w =
     deliver_signal s cs
       (if signal_matches s c w
        then call_handler (sc_handler c) (sc_proxy c) (sig_args s) (sc_data c) w
        else w)"

text \<open>One iteration of the main loop, for one event.\<close>

fun main_context_iteration :: "env \<Rightarrow> event \<Rightarrow> world \<Rightarrow> world" where
  "main_context_iteration e (Elapse ms) w =
     (let w1 = w\<lparr>now := now w + ms\<rparr>;
          (ts, w2) = dispatch_timeouts e (timeouts w1) w1
      in w2\<lparr>timeouts := ts\<rparr>)"
| "main_context_iteration e (Emit s) w = deliver_signal s (connections w) w"

definition loop_is_running :: "world \<Rightarrow> bool" where
  "loop_is_running w = (case mainloop w of None \<Rightarrow> False | Some l \<Rightarrow> is_running l)"

text \<open>
  The loop iterates while its running flag is set. The result says whether the loop has
  returned: when the flag is still set after the last event, the loop waits for ever.
\<close>

fun main_loop_iterations :: "env \<Rightarrow> event list \<Rightarrow> world \<Rightarrow> bool \<times> world" where
  "main_loop_iterations e [] w = (\<not> loop_is_running w, w)"
| "main_loop_iterations e (ev # evs) w =
     (if loop_is_running w
      then main_loop_iterations e evs (main_context_iteration e ev w)
      else (True, w))"

text \<open>\<^verbatim>\<open>g_main_loop_run\<close> sets the running flag and iterates.\<close>

definition g_main_loop_run :: "env \<Rightarrow> GMainLoop option \<Rightarrow> world \<Rightarrow> bool \<times> world" where
  "g_main_loop_run e loop w =
     (let w1 = record_call Call_g_main_loop_run
                 (case loop of
                    None \<Rightarrow> w
                  | Some l \<Rightarrow> w\<lparr>mainloop := Some (l\<lparr>is_running := True\<rparr>)\<rparr>)
      in main_loop_iterations e (events e) w1)"

subsection \<open>main\<close>

text \<open>
  Lines 142 to 163 of \<^verbatim>\<open>main\<close>: the \<^verbatim>\<open>switch\<close> on the result of the name request.
  \<open>dbuserror\<close> is the local pointer of that name as it is after the request; the case
  -1 reads its \<^verbatim>\<open>message\<close> field.
\<close>

definition main_request_report :: "int \<Rightarrow> DBusError option \<Rightarrow> world \<Rightarrow> fault + world" where
  "main_request_report retval dbuserror w =
     (if retval = - 1 then
        (case dbuserror of
           None \<Rightarrow> Inl NullDereference
         | Some err \<Rightarrow>
             (let w1 = g_printerr
                         ''Couldn't acquire name org.DBusTest.SignalTest for our connection: %s\<newline>''
                         [ArgString (message err)] w;
                  w2 = g_printerr ''This program may not terminate as a result of this error!\<newline>'' [] w1
              in Inr (record_call Call_dbus_error_free w2)))
      else if retval = DBUS_REQUEST_NAME_REPLY_PRIMARY_OWNER then
        Inr (g_printerr ''dbus_bus_request_name(): We now own the name org.DBusTest.SignalTest!\<newline>'' [] w)
      else if retval = DBUS_REQUEST_NAME_REPLY_IN_QUEUE then
        Inr (g_printerr ''dbus_bus_request_name(): We are standing in queue for our name!\<newline>'' [] w)
      else if retval = DBUS_REQUEST_NAME_REPLY_EXISTS then
        Inr (g_printerr ''dbus_bus_request_name(): :-( The name we asked for already exists!\<newline>'' [] w)
      else if retval = DBUS_REQUEST_NAME_REPLY_ALREADY_OWNER then
        Inr (g_printerr ''dbus_bus_request_name(): Eh? We already own this name!\<newline>'' [] w)
      else
        Inr (g_printerr ''dbus_bus_request_name(): Unknown result = %d\<newline>'' [ArgInt retval] w))"

text \<open>
  Lines 166 to 177: the loop is created, the handler of NameLost is connected and the
  timeout is installed.
\<close>

definition main_setup :: "DBusGConnection \<Rightarrow> world \<Rightarrow> DBusGProxy \<times> world" where
  "main_setup sigcon w =
     (let (loop, w1) = g_main_loop_new False w;
          w2 = w1\<lparr>mainloop := loop\<rparr>;
          (proxy, w3) = dbus_g_proxy_new_for_name sigcon
                          ''org.freedesktop.DBus'' ''/org/freedesktop/DBus'' ''org.freedesktop.DBus'' w2;
          w4 = dbus_g_proxy_add_signal proxy ''NameLost'' [G_TYPE_STRING] w3;
          w5 = dbus_g_proxy_connect_signal proxy ''NameLost'' OnNameLost GNull w4;
          w6 = g_timeout_add 1000 ReleaseName (GConnectionPtr sigcon) w5
      in (proxy, w6))"

text \<open>
  Lines 118 to 177 of \<^verbatim>\<open>main\<close>, all that comes before the loop is entered. The result
  is the end of the run (\<^verbatim>\<open>exit(1)\<close>, or a fault) or the proxy and the state with which
  the loop is entered.
\<close>

definition main_before_loop :: "env \<Rightarrow> (outcome \<times> world) + (DBusGProxy \<times> world)" where
  "main_before_loop e =
     (let w0 = record_call Call_g_type_init initial_world;
          (sigcon, error, w1) = dbus_g_bus_get e DBUS_BUS_SESSION w0
      in case sigcon of
           None \<Rightarrow>
             (case error of
                None \<Rightarrow> Inl (Fault NullDereference, w1)
              | Some err \<Rightarrow>
                  (let w2 = g_printerr ''Failed to connect to Session bus: %s\<newline>''
                              [ArgString (g_message err)] w1;
                       w3 = record_call Call_g_error_free w2
                   in Inl (Exit 1, record_call (Call_exit 1) w3)))
         | Some sc \<Rightarrow>
             (let w2 = record_call (Call_dbus_g_connection_get_connection sc) w1;
                  w3 = w2\<lparr>con := Some (dbus_g_connection_get_connection sc)\<rparr>;
                  dbuserror = None;
                  (retval, dbuserror, w4) =
                     dbus_bus_request_name e (con w3) ''org.DBusTest.SignalTest''
                       DBUS_NAME_FLAG_ALLOW_REPLACEMENT dbuserror w3
              in case main_request_report retval dbuserror w4 of
                   Inl f \<Rightarrow> Inl (Fault f, w4)
                 | Inr w5 \<Rightarrow> Inr (main_setup sc w5)))"

text \<open>
  \<^verbatim>\<open>int main()\<close> (lines 111 to 186): after the part above the loop runs, and when it
  has returned the proxy is released and \<^verbatim>\<open>main\<close> returns 0.
\<close>

definition main :: "env \<Rightarrow> outcome \<times> world" where
  "main e =
     (case main_before_loop e of
        Inl r \<Rightarrow> r
      | Inr (proxy, w) \<Rightarrow>
          (let (returned, w1) = g_main_loop_run e (mainloop w) w
           in if returned then (Exit 0, g_object_unref proxy w1) else (Blocked, w1)))"

subsection \<open>Notions used in the statements and proofs\<close>

text \<open>The state of \<^verbatim>\<open>main\<close> after the name request (line 141), on a run that got its connection.\<close>

definition after_request :: "env \<Rightarrow> DBusGConnection \<Rightarrow> world" where
  "after_request e sc =
     initial_world
       \<lparr>con := Some (dbus_g_connection_get_connection sc),
        calls :=
          [Call_g_type_init, Call_dbus_g_bus_get DBUS_BUS_SESSION,
           Call_dbus_g_connection_get_connection sc,
           Call_dbus_bus_request_name (Some (dbus_g_connection_get_connection sc))
             ''org.DBusTest.SignalTest'' DBUS_NAME_FLAG_ALLOW_REPLACEMENT None]\<rparr>"

text \<open>The timeout sources still installed and the release calls made so far, counted together.\<close>

definition release_budget :: "world \<Rightarrow> nat" where
  "release_budget w = length (timeouts w) + length (release_calls (calls w))"

text \<open>The library calls that the two callbacks make.\<close>

definition callback_call :: "call \<Rightarrow> bool" where
  "callback_call c =
     (case c of Call_dbus_bus_release_name _ _ _ \<Rightarrow> True | Call_g_main_loop_quit \<Rightarrow> True | _ \<Rightarrow> False)"

text \<open>The trace of \<open>w'\<close> is the trace of \<open>w\<close> followed by calls of the callbacks only.\<close>

definition extends_by_callbacks :: "world \<Rightarrow> world \<Rightarrow> bool" where
  "extends_by_callbacks w w' \<longleftrightarrow> (\<exists>xs. calls w' = calls w @ xs \<and> list_all callback_call xs)"

text \<open>A loop that is no longer running was stopped by a recorded call of \<^verbatim>\<open>g_main_loop_quit\<close>.\<close>

definition quit_recorded :: "world \<Rightarrow> bool" where
  "quit_recorded w \<longleftrightarrow> loop_is_running w \<or> Call_g_main_loop_quit \<in> set (calls w)"

text \<open>The signal NameLost as the bus daemon emits it, for the name that was lost.\<close>

definition name_lost_signal :: "string \<Rightarrow> dbus_signal" where
  "name_lost_signal nm =
     \<lparr>sig_sender = ''org.freedesktop.DBus'', sig_path = ''/org/freedesktop/DBus'',
      sig_interface = ''org.freedesktop.DBus'', sig_member = ''NameLost'',
      sig_args = [GString nm]\<rparr>"

text \<open>The run of the examples: the connection is obtained, the name is acquired and is released
  after one second, and the daemon then reports its loss.\<close>

definition example_env :: env where
  "example_env =
     \<lparr>bus_get_reply = Inr (DBusGConnection 0),
      request_name_reply = DBUS_REQUEST_NAME_REPLY_PRIMARY_OWNER,
      request_name_error = \<lparr>name = [], message = []\<rparr>,
      release_name_reply = (\<lambda>k. DBUS_RELEASE_NAME_REPLY_RELEASED),
      release_name_error = \<lparr>name = [], message = []\<rparr>,
      events = [Elapse 1000, Emit (name_lost_signal ''org.DBusTest.SignalTest'')]\<rparr>"

text \<open>The time that passes during a list of events, in milliseconds.\<close>

fun elapsed :: "event list \<Rightarrow> nat" where
  "elapsed [] = 0"
| "elapsed (Elapse ms # evs) = ms + elapsed evs"
| "elapsed (Emit s # evs) = elapsed evs"

subsection \<open>What the callbacks change\<close>

lemmas dbus_consts =
  DBUS_NAME_FLAG_ALLOW_REPLACEMENT_def
  DBUS_REQUEST_NAME_REPLY_PRIMARY_OWNER_def DBUS_REQUEST_NAME_REPLY_IN_QUEUE_def
  DBUS_REQUEST_NAME_REPLY_EXISTS_def DBUS_REQUEST_NAME_REPLY_ALREADY_OWNER_def
  DBUS_RELEASE_NAME_REPLY_RELEASED_def DBUS_RELEASE_NAME_REPLY_NON_EXISTENT_def
  DBUS_RELEASE_NAME_REPLY_NOT_OWNER_def

lemma releaseName_unfold:
  "releaseName e d w =
     (False, releaseName_report (release_name_reply e (length (release_calls (calls w)))) None
        (record_call (Call_dbus_bus_release_name (con w) ''org.DBusTest.SignalTest'' None) w))"
  by (simp add: releaseName_def dbus_bus_release_name_def Let_def)

lemma releaseName_report_frame:
  "mainloop (releaseName_report r err w) = mainloop w"
  "con (releaseName_report r err w) = con w"
  "now (releaseName_report r err w) = now w"
  "declared_signals (releaseName_report r err w) = declared_signals w"
  "connections (releaseName_report r err w) = connections w"
  "timeouts (releaseName_report r err w) = timeouts w"
  by (simp_all add: releaseName_report_def g_printerr_def record_call_def Let_def split: option.splits)

lemma releaseName_report_calls_None:
  "calls (releaseName_report r None w) = calls w"
  by (simp add: releaseName_report_def g_printerr_def Let_def)

lemma releaseName_frame:
  "mainloop (snd (releaseName e d w)) = mainloop w"
  "con (snd (releaseName e d w)) = con w"
  "now (snd (releaseName e d w)) = now w"
  "declared_signals (snd (releaseName e d w)) = declared_signals w"
  "connections (snd (releaseName e d w)) = connections w"
  "timeouts (snd (releaseName e d w)) = timeouts w"
  by (simp_all add: releaseName_unfold releaseName_report_frame record_call_def)

lemma releaseName_calls:
  "calls (snd (releaseName e d w)) =
     calls w @ [Call_dbus_bus_release_name (con w) ''org.DBusTest.SignalTest'' None]"
  by (simp add: releaseName_unfold releaseName_report_calls_None record_call_def)

lemma onNameLost_frame:
  "con (onNameLost p args d w) = con w"
  "now (onNameLost p args d w) = now w"
  "declared_signals (onNameLost p args d w) = declared_signals w"
  "connections (onNameLost p args d w) = connections w"
  "timeouts (onNameLost p args d w) = timeouts w"
  "calls (onNameLost p args d w) = calls w @ [Call_g_main_loop_quit]"
  by (simp_all add: onNameLost_def g_print_def g_main_loop_quit_def record_call_def Let_def
      split: option.splits)

lemma release_calls_append [simp]: "release_calls (xs @ ys) = release_calls xs @ release_calls ys"
  by (simp add: release_calls_def)

lemma call_source_func_unfold:
  "call_source_func e f d w = releaseName e d w"
  by (cases f) (simp add: call_source_func_def)

lemma call_source_func_frame:
  "fst (call_source_func e f d w) = False"
  "mainloop (snd (call_source_func e f d w)) = mainloop w"
  "now (snd (call_source_func e f d w)) = now w"
  "declared_signals (snd (call_source_func e f d w)) = declared_signals w"
  "connections (snd (call_source_func e f d w)) = connections w"
  "length (release_calls (calls (snd (call_source_func e f d w)))) = Suc (length (release_calls (calls w)))"
  unfolding call_source_func_unfold
       apply (simp add: releaseName_unfold)
      apply (simp add: releaseName_frame)
     apply (simp add: releaseName_frame)
    apply (simp add: releaseName_frame)
   apply (simp add: releaseName_frame)
  apply (simp add: releaseName_calls)
  apply (simp add: release_calls_def)
  done

lemma dispatch_timeouts_count:
  "length (fst (dispatch_timeouts e ts w)) + length (release_calls (calls (snd (dispatch_timeouts e ts w))))
     = length ts + length (release_calls (calls w))"
proof (induction ts arbitrary: w)
  case Nil
  show ?case by simp
next
  case (Cons t ts)
  show ?case
    using Cons.IH [of w] Cons.IH [of "snd (call_source_func e (ts_function t) (ts_data t) w)"]
    by (simp add: split_beta Let_def call_source_func_frame)
qed

lemma call_handler_unfold:
  "call_handler h p args d w = onNameLost p args d w"
  by (cases h) (simp add: call_handler_def)

lemma call_handler_frame:
  "now (call_handler h p args d w) = now w"
  "declared_signals (call_handler h p args d w) = declared_signals w"
  "connections (call_handler h p args d w) = connections w"
  "timeouts (call_handler h p args d w) = timeouts w"
  "release_calls (calls (call_handler h p args d w)) = release_calls (calls w)"
  unfolding call_handler_unfold
  by (simp_all add: onNameLost_frame release_calls_def)

lemma deliver_signal_frame:
  "now (deliver_signal s cs w) = now w \<and>
   declared_signals (deliver_signal s cs w) = declared_signals w \<and>
   connections (deliver_signal s cs w) = connections w \<and>
   timeouts (deliver_signal s cs w) = timeouts w \<and>
   release_calls (calls (deliver_signal s cs w)) = release_calls (calls w)"
  by (induction cs arbitrary: w) (simp_all add: call_handler_frame)

lemma main_context_iteration_budget:
  "release_budget (main_context_iteration e ev w) = release_budget w"
proof (cases ev)
  case (Elapse ms)
  show ?thesis
    using dispatch_timeouts_count [of e "timeouts w" "w\<lparr>now := now w + ms\<rparr>"]
    by (simp add: Elapse release_budget_def split_beta Let_def)
next
  case (Emit s)
  show ?thesis by (simp add: Emit release_budget_def deliver_signal_frame)
qed

lemma main_loop_iterations_budget:
  "release_budget (snd (main_loop_iterations e evs w)) = release_budget w"
  by (induction evs arbitrary: w) (simp_all add: main_context_iteration_budget)



lemma main_setup_unfold:
  "main_setup sc w =
     (\<lparr>proxy_name = ''org.freedesktop.DBus'', proxy_path = ''/org/freedesktop/DBus'',
       proxy_interface = ''org.freedesktop.DBus''\<rparr>,
      w\<lparr>mainloop := Some \<lparr>is_running = False\<rparr>,
        calls := calls w @
          [Call_g_main_loop_new,
           Call_dbus_g_proxy_new_for_name sc
             ''org.freedesktop.DBus'' ''/org/freedesktop/DBus'' ''org.freedesktop.DBus'',
           Call_dbus_g_proxy_add_signal
             \<lparr>proxy_name = ''org.freedesktop.DBus'', proxy_path = ''/org/freedesktop/DBus'',
              proxy_interface = ''org.freedesktop.DBus''\<rparr> ''NameLost'' [G_TYPE_STRING],
           Call_dbus_g_proxy_connect_signal
             \<lparr>proxy_name = ''org.freedesktop.DBus'', proxy_path = ''/org/freedesktop/DBus'',
              proxy_interface = ''org.freedesktop.DBus''\<rparr> ''NameLost'' OnNameLost GNull,
           Call_g_timeout_add 1000 ReleaseName (GConnectionPtr sc)],
        declared_signals := declared_signals w @
          [(\<lparr>proxy_name = ''org.freedesktop.DBus'', proxy_path = ''/org/freedesktop/DBus'',
             proxy_interface = ''org.freedesktop.DBus''\<rparr>, ''NameLost'', [G_TYPE_STRING])],
        connections := connections w @
          [\<lparr>sc_proxy = \<lparr>proxy_name = ''org.freedesktop.DBus'', proxy_path = ''/org/freedesktop/DBus'',
                        proxy_interface = ''org.freedesktop.DBus''\<rparr>,
            sc_signal = ''NameLost'', sc_handler = OnNameLost, sc_data = GNull\<rparr>],
        timeouts := timeouts w @
          [\<lparr>ts_interval = 1000, ts_due = now w + 1000, ts_function = ReleaseName,
            ts_data = GConnectionPtr sc\<rparr>]\<rparr>)"
  by (simp add: main_setup_def g_main_loop_new_def dbus_g_proxy_new_for_name_def
      dbus_g_proxy_add_signal_def dbus_g_proxy_connect_signal_def signal_declared_def
      g_timeout_add_def record_call_def Let_def)

lemma main_request_report_frame:
  assumes "main_request_report r err w = Inr w'"
  shows "mainloop w' = mainloop w" "con w' = con w" "now w' = now w"
    "declared_signals w' = declared_signals w" "connections w' = connections w"
    "timeouts w' = timeouts w"
  using assms
  by (auto simp: main_request_report_def g_printerr_def record_call_def Let_def
      split: if_splits option.splits)

lemma main_request_report_None:
  "main_request_report r None w =
     (if r = - 1 then Inl NullDereference
      else Inr (w\<lparr>out := out w @
        [if r = DBUS_REQUEST_NAME_REPLY_PRIMARY_OWNER then
           \<lparr>out_stream = Stderr,
            out_format = ''dbus_bus_request_name(): We now own the name org.DBusTest.SignalTest!\<newline>'',
            out_args = []\<rparr>
         else if r = DBUS_REQUEST_NAME_REPLY_IN_QUEUE then
           \<lparr>out_stream = Stderr,
            out_format = ''dbus_bus_request_name(): We are standing in queue for our name!\<newline>'',
            out_args = []\<rparr>
         else if r = DBUS_REQUEST_NAME_REPLY_EXISTS then
           \<lparr>out_stream = Stderr,
            out_format = ''dbus_bus_request_name(): :-( The name we asked for already exists!\<newline>'',
            out_args = []\<rparr>
         else if r = DBUS_REQUEST_NAME_REPLY_ALREADY_OWNER then
           \<lparr>out_stream = Stderr,
            out_format = ''dbus_bus_request_name(): Eh? We already own this name!\<newline>'',
            out_args = []\<rparr>
         else
           \<lparr>out_stream = Stderr,
            out_format = ''dbus_bus_request_name(): Unknown result = %d\<newline>'',
            out_args = [ArgInt r]\<rparr>]\<rparr>))"
  by (simp add: main_request_report_def g_printerr_def)

lemma main_before_loop_connected:
  assumes "bus_get_reply e = Inr sc"
  shows "main_before_loop e =
           (case main_request_report (request_name_reply e) None (after_request e sc) of
              Inl f \<Rightarrow> Inl (Fault f, after_request e sc)
            | Inr w \<Rightarrow> Inr (main_setup sc w))"
  using assms
  by (simp add: main_before_loop_def dbus_g_bus_get_def dbus_bus_request_name_def
      record_call_def initial_world_def after_request_def Let_def split: sum.split)

lemma main_before_loop_failed:
  assumes "bus_get_reply e = Inl err"
  shows "main_before_loop e =
           Inl (Exit 1,
                initial_world
                  \<lparr>out := [\<lparr>out_stream = Stderr,
                             out_format = ''Failed to connect to Session bus: %s\<newline>'',
                             out_args = [ArgString (g_message err)]\<rparr>],
                   calls := [Call_g_type_init, Call_dbus_g_bus_get DBUS_BUS_SESSION,
                             Call_g_error_free, Call_exit 1]\<rparr>)"
  using assms
  by (simp add: main_before_loop_def dbus_g_bus_get_def g_printerr_def
      record_call_def initial_world_def Let_def)

lemma extends_by_callbacks_refl: "calls w' = calls w \<Longrightarrow> extends_by_callbacks w w'"
  by (simp add: extends_by_callbacks_def)

lemma extends_by_callbacks_trans:
  "extends_by_callbacks w w1 \<Longrightarrow> extends_by_callbacks w1 w2 \<Longrightarrow> extends_by_callbacks w w2"
  by (auto simp: extends_by_callbacks_def)

lemma call_source_func_extends: "extends_by_callbacks w (snd (call_source_func e f d w))"
  by (simp add: extends_by_callbacks_def call_source_func_unfold releaseName_calls callback_call_def)

lemma call_handler_extends: "extends_by_callbacks w (call_handler h p args d w)"
  by (simp add: extends_by_callbacks_def call_handler_unfold onNameLost_frame callback_call_def)

lemma dispatch_timeouts_extends: "extends_by_callbacks w (snd (dispatch_timeouts e ts w))"
proof (induction ts arbitrary: w)
  case Nil
  show ?case by (simp add: extends_by_callbacks_refl)
next
  case (Cons t ts)
  show ?case
  proof (cases "ts_due t \<le> now w")
    case True
    have "extends_by_callbacks w (snd (dispatch_timeouts e ts (snd (call_source_func e (ts_function t) (ts_data t) w))))"
      using call_source_func_extends Cons.IH by (rule extends_by_callbacks_trans)
    then show ?thesis using True by (simp add: split_beta Let_def)
  next
    case False
    then show ?thesis using Cons.IH [of w] by (simp add: split_beta)
  qed
qed

lemma deliver_signal_extends: "extends_by_callbacks w (deliver_signal s cs w)"
proof (induction cs arbitrary: w)
  case Nil
  show ?case by (simp add: extends_by_callbacks_refl)
next
  case (Cons c cs)
  show ?case
  proof (cases "signal_matches s c w")
    case True
    have "extends_by_callbacks w
            (deliver_signal s cs (call_handler (sc_handler c) (sc_proxy c) (sig_args s) (sc_data c) w))"
      using call_handler_extends Cons.IH by (rule extends_by_callbacks_trans)
    then show ?thesis using True by simp
  next
    case False
    then show ?thesis using Cons.IH [of w] by simp
  qed
qed

lemma main_context_iteration_extends: "extends_by_callbacks w (main_context_iteration e ev w)"
proof (cases ev)
  case (Elapse ms)
  have "extends_by_callbacks (w\<lparr>now := now w + ms\<rparr>)
          (snd (dispatch_timeouts e (timeouts w) (w\<lparr>now := now w + ms\<rparr>)))"
    by (rule dispatch_timeouts_extends)
  then show ?thesis
    by (simp add: Elapse split_beta Let_def extends_by_callbacks_def)
next
  case (Emit s)
  show ?thesis by (simp add: Emit deliver_signal_extends)
qed

lemma main_loop_iterations_extends: "extends_by_callbacks w (snd (main_loop_iterations e evs w))"
proof (induction evs arbitrary: w)
  case Nil
  show ?case by (simp add: extends_by_callbacks_refl)
next
  case (Cons ev evs)
  show ?case
  proof (cases "loop_is_running w")
    case True
    have "extends_by_callbacks w (snd (main_loop_iterations e evs (main_context_iteration e ev w)))"
      using main_context_iteration_extends Cons.IH by (rule extends_by_callbacks_trans)
    then show ?thesis using True by simp
  next
    case False
    then show ?thesis by (simp add: extends_by_callbacks_refl)
  qed
qed

lemma call_source_func_calls:
  "calls (snd (call_source_func e f d w)) =
     calls w @ [Call_dbus_bus_release_name (con w) ''org.DBusTest.SignalTest'' None]"
  by (simp add: call_source_func_unfold releaseName_calls)

lemma call_source_func_quit_recorded:
  "quit_recorded w \<Longrightarrow> quit_recorded (snd (call_source_func e f d w))"
  by (auto simp: quit_recorded_def loop_is_running_def call_source_func_frame call_source_func_calls)

lemma call_handler_quit_recorded: "quit_recorded (call_handler h p args d w)"
  by (simp add: quit_recorded_def call_handler_unfold onNameLost_frame)

lemma dispatch_timeouts_quit_recorded:
  "quit_recorded w \<Longrightarrow> quit_recorded (snd (dispatch_timeouts e ts w))"
proof (induction ts arbitrary: w)
  case Nil
  then show ?case by simp
next
  case (Cons t ts)
  show ?case
    using Cons.prems Cons.IH [of w]
      Cons.IH [OF call_source_func_quit_recorded [OF Cons.prems], of e "ts_function t" "ts_data t"]
    by (simp add: split_beta Let_def)
qed

lemma deliver_signal_quit_recorded:
  "quit_recorded w \<Longrightarrow> quit_recorded (deliver_signal s cs w)"
proof (induction cs arbitrary: w)
  case Nil
  then show ?case by simp
next
  case (Cons c cs)
  show ?case
    using Cons.prems Cons.IH [of w]
      Cons.IH [OF call_handler_quit_recorded, of "sc_handler c" "sc_proxy c" "sig_args s" "sc_data c" w]
    by simp
qed

lemma main_context_iteration_quit_recorded:
  assumes "quit_recorded w"
  shows "quit_recorded (main_context_iteration e ev w)"
proof (cases ev)
  case (Elapse ms)
  have "quit_recorded (w\<lparr>now := now w + ms\<rparr>)"
    using assms by (simp add: quit_recorded_def loop_is_running_def)
  then have "quit_recorded (snd (dispatch_timeouts e (timeouts w) (w\<lparr>now := now w + ms\<rparr>)))"
    by (rule dispatch_timeouts_quit_recorded)
  then show ?thesis
    by (simp add: Elapse split_beta Let_def quit_recorded_def loop_is_running_def)
next
  case (Emit s)
  show ?thesis using assms by (simp add: Emit deliver_signal_quit_recorded)
qed

lemma main_loop_iterations_quit_recorded:
  "quit_recorded w \<Longrightarrow> quit_recorded (snd (main_loop_iterations e evs w))"
  by (induction evs arbitrary: w) (simp_all add: main_context_iteration_quit_recorded)

lemma main_loop_iterations_returned:
  "fst (main_loop_iterations e evs w) \<Longrightarrow> \<not> loop_is_running (snd (main_loop_iterations e evs w))"
  by (induction evs arbitrary: w) (simp_all split: if_splits)

subsection \<open>The runs of main\<close>

lemma main_request_report_calls:
  assumes "main_request_report r None w = Inr w'"
  shows "calls w' = calls w"
  using assms by (auto simp: main_request_report_None split: if_splits)

lemma after_request_fields:
  "mainloop (after_request e sc) = None"
  "con (after_request e sc) = Some (dbus_g_connection_get_connection sc)"
  "out (after_request e sc) = []"
  "now (after_request e sc) = 0"
  "declared_signals (after_request e sc) = []"
  "connections (after_request e sc) = []"
  "timeouts (after_request e sc) = []"
  "release_calls (calls (after_request e sc)) = []"
  "Call_g_main_loop_quit \<notin> set (calls (after_request e sc))"
  by (simp_all add: after_request_def initial_world_def release_calls_def)

lemma main_before_loop_cases:
  obtains
    (failed) err where "bus_get_reply e = Inl err" "\<exists>w. main_before_loop e = Inl (Exit 1, w)"
  | (fault) sc where "bus_get_reply e = Inr sc" "request_name_reply e = - 1"
      "main_before_loop e = Inl (Fault NullDereference, after_request e sc)"
  | (entered) sc w5 where "bus_get_reply e = Inr sc" "request_name_reply e \<noteq> - 1"
      "main_request_report (request_name_reply e) None (after_request e sc) = Inr w5"
      "main_before_loop e = Inr (main_setup sc w5)"
proof (cases "bus_get_reply e")
  case (Inl err)
  then show ?thesis using failed main_before_loop_failed [OF Inl] by blast
next
  case (Inr sc)
  show ?thesis
  proof (cases "request_name_reply e = - 1")
    case True
    then show ?thesis
      using fault [OF Inr True] by (simp add: main_before_loop_connected [OF Inr] main_request_report_None)
  next
    case False
    then obtain w5 where w5: "main_request_report (request_name_reply e) None (after_request e sc) = Inr w5"
      by (simp add: main_request_report_None)
    show ?thesis
      using entered [OF Inr False w5] by (simp add: main_before_loop_connected [OF Inr] w5)
  qed
qed

lemma g_main_loop_run_budget:
  "release_budget (snd (g_main_loop_run e loop w)) = release_budget w"
  by (simp add: g_main_loop_run_def Let_def main_loop_iterations_budget)
    (simp add: release_budget_def record_call_def release_calls_def split: option.splits)

lemma g_object_unref_release_calls:
  "release_calls (calls (g_object_unref p w)) = release_calls (calls w)"
  by (simp add: g_object_unref_def record_call_def release_calls_def)

lemma main_setup_budget:
  "release_budget (snd (main_setup sc w)) = Suc (release_budget w)"
  by (simp add: main_setup_unfold release_budget_def release_calls_def)

lemma main_release_calls: "length (release_calls (calls (snd (main e)))) \<le> 1"
proof (cases e rule: main_before_loop_cases)
  case (failed err)
  then show ?thesis
    using main_before_loop_failed [OF failed(1)]
    by (simp add: main_def initial_world_def release_calls_def)
next
  case (fault sc)
  then show ?thesis by (simp add: main_def after_request_fields)
next
  case (entered sc w5)
  have "release_budget w5 = 0"
    using main_request_report_frame [OF entered(3)] main_request_report_calls [OF entered(3)]
    by (simp add: release_budget_def after_request_fields)
  then have "release_budget (snd (g_main_loop_run e (mainloop (snd (main_setup sc w5))) (snd (main_setup sc w5)))) = 1"
    by (simp add: g_main_loop_run_budget main_setup_budget)
  then have "length (release_calls (calls (snd (g_main_loop_run e (mainloop (snd (main_setup sc w5))) (snd (main_setup sc w5)))))) \<le> 1"
    by (simp add: release_budget_def)
  then show ?thesis
    by (simp add: main_def entered(4) split_beta Let_def g_object_unref_release_calls)
qed

lemma g_main_loop_run_quit:
  assumes "mainloop w \<noteq> None" "fst (g_main_loop_run e (mainloop w) w)"
  shows "Call_g_main_loop_quit \<in> set (calls (snd (g_main_loop_run e (mainloop w) w)))"
proof -
  obtain l where l: "mainloop w = Some l" using assms(1) by auto
  let ?w1 = "record_call Call_g_main_loop_run (w\<lparr>mainloop := Some (l\<lparr>is_running := True\<rparr>)\<rparr>)"
  have run: "g_main_loop_run e (mainloop w) w = main_loop_iterations e (events e) ?w1"
    by (simp add: g_main_loop_run_def l)
  have "quit_recorded ?w1"
    by (simp add: quit_recorded_def loop_is_running_def record_call_def)
  then have "quit_recorded (snd (main_loop_iterations e (events e) ?w1))"
    by (rule main_loop_iterations_quit_recorded)
  moreover have "\<not> loop_is_running (snd (main_loop_iterations e (events e) ?w1))"
    using assms(2) unfolding run by (rule main_loop_iterations_returned)
  ultimately show ?thesis
    unfolding run by (simp add: quit_recorded_def)
qed

lemma main_setup_mainloop: "mainloop (snd (main_setup sc w)) = Some \<lparr>is_running = False\<rparr>"
  by (simp add: main_setup_unfold)

lemma main_entered:
  assumes "main_before_loop e = Inr (proxy, w)"
  shows "main e =
           (if fst (g_main_loop_run e (mainloop w) w)
            then (Exit 0, g_object_unref proxy (snd (g_main_loop_run e (mainloop w) w)))
            else (Blocked, snd (g_main_loop_run e (mainloop w) w)))"
  by (simp add: main_def assms split_beta)

lemma main_entered_run:
  assumes "bus_get_reply e = Inr sc" "request_name_reply e \<noteq> - 1"
  shows "main e =
     (let w = snd (main_setup sc (projr (main_request_report (request_name_reply e) None (after_request e sc))));
          r = main_loop_iterations e (events e)
                (record_call Call_g_main_loop_run (w\<lparr>mainloop := Some \<lparr>is_running = True\<rparr>\<rparr>))
      in if fst r
         then (Exit 0, g_object_unref (fst (main_setup sc w)) (snd r))
         else (Blocked, snd r))"
  using assms
  by (simp add: main_def main_before_loop_connected [OF assms(1)] main_request_report_None
      main_setup_unfold g_main_loop_run_def split_beta Let_def)

lemma main_loop_iterations_stopped:
  "\<not> loop_is_running w \<Longrightarrow> main_loop_iterations e evs w = (True, w)"
  by (cases evs) simp_all

lemma example_env_replies:
  "bus_get_reply example_env = Inr (DBusGConnection 0)"
  "request_name_reply example_env \<noteq> - 1"
  by (simp_all add: example_env_def dbus_consts)

lemma main_before_loop_example:
  "main_before_loop example_env =
     Inr (main_setup (DBusGConnection 0)
            ((after_request example_env (DBusGConnection 0))
               \<lparr>out := [\<lparr>out_stream = Stderr,
                          out_format = ''dbus_bus_request_name(): We now own the name org.DBusTest.SignalTest!\<newline>'',
                          out_args = []\<rparr>]\<rparr>))"
proof -
  have "request_name_reply example_env = DBUS_REQUEST_NAME_REPLY_PRIMARY_OWNER"
    by (simp add: example_env_def)
  then show ?thesis
    by (simp add: main_before_loop_connected [OF example_env_replies(1)] main_request_report_None
        after_request_fields dbus_consts)
qed

lemma main_example_env_exit: "fst (main example_env) = Exit 0"
proof -
  have "events example_env = [Elapse 1000, Emit (name_lost_signal ''org.DBusTest.SignalTest'')]"
    and "release_name_reply example_env 0 = 1"
    and "request_name_reply example_env = 1"
    by (simp_all add: example_env_def dbus_consts)
  then show ?thesis
    by (simp add: main_entered_run [OF example_env_replies] main_request_report_None
        after_request_def initial_world_def main_setup_unfold Let_def record_call_def
        loop_is_running_def call_source_func_def releaseName_unfold releaseName_report_def
        release_calls_def g_printerr_def g_print_def signal_matches_def name_lost_signal_def
        call_handler_def onNameLost_def g_main_loop_quit_def g_object_unref_def dbus_consts)
qed


lemma g_main_loop_run_calls:
  "\<exists>xs. calls (snd (g_main_loop_run e loop w)) = calls w @ Call_g_main_loop_run # xs \<and>
        list_all callback_call xs"
proof -
  let ?w1 = "record_call Call_g_main_loop_run
               (case loop of None \<Rightarrow> w | Some l \<Rightarrow> w\<lparr>mainloop := Some (l\<lparr>is_running := True\<rparr>)\<rparr>)"
  have "extends_by_callbacks ?w1 (snd (main_loop_iterations e (events e) ?w1))"
    by (rule main_loop_iterations_extends)
  moreover have "calls ?w1 = calls w @ [Call_g_main_loop_run]"
    by (simp add: record_call_def split: option.splits)
  ultimately show ?thesis
    by (auto simp: g_main_loop_run_def extends_by_callbacks_def)
qed


lemma releaseName_report_None_out:
  "out (releaseName_report r None w) =
     out w @
       (if r = DBUS_RELEASE_NAME_REPLY_RELEASED then
          [\<lparr>out_stream = Stderr,
            out_format = ''releaseName(): Name org.DBusTest.SignalTest was released successfully\<newline>'',
            out_args = []\<rparr>]
        else if r = DBUS_RELEASE_NAME_REPLY_NOT_OWNER then
          [\<lparr>out_stream = Stderr,
            out_format = ''releaseName(): Name org.DBusTest.SignalTest is not owned by this app!\<newline>'',
            out_args = []\<rparr>]
        else if r = DBUS_RELEASE_NAME_REPLY_NON_EXISTENT then
          [\<lparr>out_stream = Stderr,
            out_format = ''releaseName(): Name org.DBusTest.SignalTest does not exist!\<newline>'',
            out_args = []\<rparr>]
        else
          [\<lparr>out_stream = Stderr, out_format = ''releaseName(): Unknown exit status %d\<newline>'',
            out_args = [ArgInt r]\<rparr>]) @
       (if r = - 1 then
          [\<lparr>out_stream = Stderr,
            out_format = ''releaseName(): Something fishy. We got an exit status of -1 but error == NULL!\<newline>'',
            out_args = []\<rparr>]
        else [])"
  by (simp add: releaseName_report_def g_printerr_def Let_def)

subsection \<open>When the timeout fires\<close>

lemma dispatch_timeouts_none_due:
  "(\<And>t. t \<in> set ts \<Longrightarrow> now w < ts_due t) \<Longrightarrow> dispatch_timeouts e ts w = (ts, w)"
  by (induction ts) (simp_all add: not_le [symmetric] del: not_le)

lemma main_loop_iterations_not_due:
  "(\<And>t. t \<in> set (timeouts w) \<Longrightarrow> now w + elapsed evs < ts_due t) \<Longrightarrow>
     release_calls (calls (snd (main_loop_iterations e evs w))) = release_calls (calls w)"
proof (induction evs arbitrary: w)
  case Nil
  show ?case by simp
next
  case (Cons ev evs)
  show ?case
  proof (cases ev)
    case (Elapse ms)
    have due: "\<And>t. t \<in> set (timeouts w) \<Longrightarrow> now w + ms + elapsed evs < ts_due t"
      using Cons.prems by (simp add: Elapse add.assoc)
    have "dispatch_timeouts e (timeouts w) (w\<lparr>now := now w + ms\<rparr>) = (timeouts w, w\<lparr>now := now w + ms\<rparr>)"
      by (rule dispatch_timeouts_none_due) (use due in fastforce)
    then have step: "main_context_iteration e ev w = w\<lparr>now := now w + ms\<rparr>"
      by (simp add: Elapse)
    have "release_calls (calls (snd (main_loop_iterations e evs (w\<lparr>now := now w + ms\<rparr>)))) =
            release_calls (calls (w\<lparr>now := now w + ms\<rparr>))"
      by (rule Cons.IH) (use due in simp)
    then show ?thesis by (simp add: step)
  next
    case (Emit s)
    have "release_calls (calls (snd (main_loop_iterations e evs (deliver_signal s (connections w) w)))) =
            release_calls (calls (deliver_signal s (connections w) w))"
      by (rule Cons.IH) (use Cons.prems in \<open>simp add: Emit deliver_signal_frame\<close>)
    then show ?thesis by (simp add: Emit deliver_signal_frame)
  qed
qed

lemma main_loop_iterations_no_timeouts:
  assumes "timeouts w = []"
  shows "release_calls (calls (snd (main_loop_iterations e evs w))) = release_calls (calls w)"
proof -
  obtain xs where xs: "calls (snd (main_loop_iterations e evs w)) = calls w @ xs"
    using main_loop_iterations_extends [of w e evs] by (auto simp: extends_by_callbacks_def)
  have "release_budget (snd (main_loop_iterations e evs w)) = release_budget w"
    by (rule main_loop_iterations_budget)
  then have "release_calls xs = []"
    using assms by (simp add: release_budget_def xs)
  then show ?thesis by (simp add: xs)
qed

lemma main_registers_timeout:
  assumes "bus_get_reply e = Inr c" "request_name_reply e \<noteq> - 1"
  shows "(\<exists>proxy w0. main_before_loop e = Inr (proxy, w0) \<and>
            timeouts w0 = [\<lparr>ts_interval = 1000, ts_due = 1000, ts_function = ReleaseName,
                            ts_data = GConnectionPtr c\<rparr>]) \<and>
         Call_g_timeout_add 1000 ReleaseName (GConnectionPtr c) \<in> set (calls (snd (main e)))"
proof (cases e rule: main_before_loop_cases)
  case (failed err)
  then show ?thesis using assms by simp
next
  case (fault sc)
  then show ?thesis using assms by simp
next
  case (entered sc w5)
  have sc: "sc = c" using assms(1) entered(1) by simp
  obtain proxy w0 where pw: "main_setup c w5 = (proxy, w0)" by (cases "main_setup c w5")
  have before: "main_before_loop e = Inr (proxy, w0)" using entered(4) pw sc by simp
  have w5: "timeouts w5 = []" "now w5 = 0"
    using main_request_report_frame [OF entered(3)] by (simp_all add: after_request_fields)
  have t: "timeouts w0 = [\<lparr>ts_interval = 1000, ts_due = 1000, ts_function = ReleaseName,
                            ts_data = GConnectionPtr c\<rparr>]"
    using pw w5 by (auto simp: main_setup_unfold)
  have c0: "Call_g_timeout_add 1000 ReleaseName (GConnectionPtr c) \<in> set (calls w0)"
    using pw by (auto simp: main_setup_unfold)
  obtain xs where "calls (snd (g_main_loop_run e (mainloop w0) w0)) = calls w0 @ Call_g_main_loop_run # xs"
    using g_main_loop_run_calls by blast
  then have "Call_g_timeout_add 1000 ReleaseName (GConnectionPtr c) \<in> set (calls (snd (main e)))"
    using c0 by (simp add: main_entered [OF before] g_object_unref_def record_call_def)
  then show ?thesis using before t by blast
qed

lemma main_releases_when_due:
  assumes "bus_get_reply e = Inr c" "request_name_reply e \<noteq> - 1"
    and "events e = Elapse ms # rest" "1000 \<le> ms"
  shows "release_calls (calls (snd (main e))) =
           [Call_dbus_bus_release_name (Some (dbus_g_connection_get_connection c))
              ''org.DBusTest.SignalTest'' None]"
  using assms(2,4)
  by (simp add: main_entered_run [OF assms(1,2)] assms(3) main_request_report_None
      after_request_def initial_world_def main_setup_unfold Let_def record_call_def
      loop_is_running_def call_source_func_unfold releaseName_unfold releaseName_report_frame
      releaseName_report_calls_None split_beta
      main_loop_iterations_no_timeouts g_object_unref_release_calls)
    (simp add: release_calls_def)

lemma main_no_release_before_due:
  assumes "elapsed (events e) < 1000"
  shows "release_calls (calls (snd (main e))) = []"
proof (cases e rule: main_before_loop_cases)
  case (failed err)
  then show ?thesis
    using main_before_loop_failed [OF failed(1)]
    by (simp add: main_def initial_world_def release_calls_def)
next
  case (fault sc)
  then show ?thesis by (simp add: main_def after_request_fields)
next
  case (entered sc w5)
  have w5: "timeouts w5 = []" "now w5 = 0" "release_calls (calls w5) = []"
    using main_request_report_frame [OF entered(3)] main_request_report_calls [OF entered(3)]
    by (simp_all add: after_request_fields)
  let ?w0 = "snd (main_setup sc w5)"
  let ?w1 = "record_call Call_g_main_loop_run (?w0\<lparr>mainloop := Some \<lparr>is_running = True\<rparr>\<rparr>)"
  have run: "g_main_loop_run e (mainloop ?w0) ?w0 = main_loop_iterations e (events e) ?w1"
    by (simp add: g_main_loop_run_def main_setup_unfold)
  have "release_calls (calls (snd (main_loop_iterations e (events e) ?w1))) = release_calls (calls ?w1)"
    by (rule main_loop_iterations_not_due)
      (use assms w5 in \<open>auto simp: main_setup_unfold record_call_def\<close>)
  moreover have "release_calls (calls ?w1) = []"
    using w5 by (simp add: main_setup_unfold record_call_def release_calls_def)
  ultimately show ?thesis
    by (simp add: main_def entered(4) split_beta run g_object_unref_release_calls)
qed

subsection \<open>The claims\<close>

text \<open>
  Claim C1. When the connection is obtained and the name request returns -1, the case -1
  of the \<^verbatim>\<open>switch\<close> reads \<^verbatim>\<open>dbuserror -> message\<close> while \<open>dbuserror\<close> is
  still the \<^verbatim>\<open>NULL\<close> of line 131: the run stops at that read. Nothing has been
  printed, and the name request is the last library call of the run, so nothing of the
  rest of \<^verbatim>\<open>main\<close> is executed.
\<close>

theorem main_request_failure_faults:
  "main \<lparr>bus_get_reply = Inr sc, request_name_reply = - 1, request_name_error = rerr,
         release_name_reply = rel, release_name_error = lerr, events = evs\<rparr> =
     (Fault NullDereference,
      initial_world
        \<lparr>con := Some (dbus_g_connection_get_connection sc),
         calls :=
           [Call_g_type_init, Call_dbus_g_bus_get DBUS_BUS_SESSION,
            Call_dbus_g_connection_get_connection sc,
            Call_dbus_bus_request_name (Some (dbus_g_connection_get_connection sc))
              ''org.DBusTest.SignalTest'' DBUS_NAME_FLAG_ALLOW_REPLACEMENT None]\<rparr>)"
  by (simp add: main_def main_before_loop_connected main_request_report_None after_request_def)

text \<open>
  Claim C2. When \<^verbatim>\<open>dbus_g_bus_get\<close> returns no connection, the run prints the
  message of the error on the error stream and exits with status 1; the only library calls
  of the run are \<^verbatim>\<open>g_type_init\<close>, \<^verbatim>\<open>dbus_g_bus_get\<close>, \<^verbatim>\<open>g_error_free\<close> and
  \<^verbatim>\<open>exit\<close>: no name is requested or released and no signal is subscribed to.
\<close>

theorem main_connection_failure:
  assumes "bus_get_reply e = Inl err"
  shows "main e =
           (Exit 1,
            initial_world
              \<lparr>out := [\<lparr>out_stream = Stderr,
                         out_format = ''Failed to connect to Session bus: %s\<newline>'',
                         out_args = [ArgString (g_message err)]\<rparr>],
               calls := [Call_g_type_init, Call_dbus_g_bus_get DBUS_BUS_SESSION,
                         Call_g_error_free, Call_exit 1]\<rparr>)"
  by (simp add: main_def main_before_loop_failed [OF assms])

text \<open>The run on a failed connection whose error says \<open>no session bus\<close>.\<close>

theorem main_connection_failure_witness:
  "main \<lparr>bus_get_reply = Inl \<lparr>g_message = ''no session bus''\<rparr>, request_name_reply = 1,
         request_name_error = \<lparr>name = [], message = []\<rparr>,
         release_name_reply = (\<lambda>k. 1), release_name_error = \<lparr>name = [], message = []\<rparr>,
         events = [Elapse 1000]\<rparr> =
     (Exit 1,
      initial_world
        \<lparr>out := [\<lparr>out_stream = Stderr,
                   out_format = ''Failed to connect to Session bus: %s\<newline>'',
                   out_args = [ArgString ''no session bus'']\<rparr>],
         calls := [Call_g_type_init, Call_dbus_g_bus_get DBUS_BUS_SESSION,
                   Call_g_error_free, Call_exit 1]\<rparr>)"
  using main_connection_failure
    [of "\<lparr>bus_get_reply = Inl \<lparr>g_message = ''no session bus''\<rparr>, request_name_reply = 1,
         request_name_error = \<lparr>name = [], message = []\<rparr>,
         release_name_reply = (\<lambda>k. 1), release_name_error = \<lparr>name = [], message = []\<rparr>,
         events = [Elapse 1000]\<rparr>" "\<lparr>g_message = ''no session bus''\<rparr>"]
  by simp

text \<open>
  Claim C3. An invocation of \<^verbatim>\<open>releaseName\<close> reports on the result of the release
  call and on the error pointer as it is after that call. When the result is -1 and the
  pointer is \<^verbatim>\<open>NULL\<close>, the line of the \<^verbatim>\<open>default\<close> case is followed by the
  warning of an inconsistency; when the pointer is not \<^verbatim>\<open>NULL\<close>, it is followed by the
  message of the error and the warning that the program may not terminate.
\<close>

theorem releaseName_failure_branches:
  "snd (releaseName e my_data w) =
     releaseName_report
       (fst (dbus_bus_release_name e (con w) ''org.DBusTest.SignalTest'' None w))
       (fst (snd (dbus_bus_release_name e (con w) ''org.DBusTest.SignalTest'' None w)))
       (snd (snd (dbus_bus_release_name e (con w) ''org.DBusTest.SignalTest'' None w))) \<and>
   out (releaseName_report (- 1) None w) =
     out w @
       [\<lparr>out_stream = Stderr, out_format = ''releaseName(): Unknown exit status %d\<newline>'',
         out_args = [ArgInt (- 1)]\<rparr>,
        \<lparr>out_stream = Stderr,
         out_format = ''releaseName(): Something fishy. We got an exit status of -1 but error == NULL!\<newline>'',
         out_args = []\<rparr>] \<and>
   out (releaseName_report (- 1) (Some err) w) =
     out w @
       [\<lparr>out_stream = Stderr, out_format = ''releaseName(): Unknown exit status %d\<newline>'',
         out_args = [ArgInt (- 1)]\<rparr>,
        \<lparr>out_stream = Stderr,
         out_format = ''Could not release name org.DBusTest.SignalTest: %s\<newline>'',
         out_args = [ArgString (message err)]\<rparr>,
        \<lparr>out_stream = Stderr, out_format = ''This program may not terminate...\<newline>'',
         out_args = []\<rparr>]"
proof (intro conjI)
  show "snd (releaseName e my_data w) =
     releaseName_report
       (fst (dbus_bus_release_name e (con w) ''org.DBusTest.SignalTest'' None w))
       (fst (snd (dbus_bus_release_name e (con w) ''org.DBusTest.SignalTest'' None w)))
       (snd (snd (dbus_bus_release_name e (con w) ''org.DBusTest.SignalTest'' None w)))"
    by (simp add: releaseName_def split_beta Let_def)
next
  show "out (releaseName_report (- 1) None w) =
     out w @
       [\<lparr>out_stream = Stderr, out_format = ''releaseName(): Unknown exit status %d\<newline>'',
         out_args = [ArgInt (- 1)]\<rparr>,
        \<lparr>out_stream = Stderr,
         out_format = ''releaseName(): Something fishy. We got an exit status of -1 but error == NULL!\<newline>'',
         out_args = []\<rparr>]"
    by (simp add: releaseName_report_def g_printerr_def dbus_consts)
next
  show "out (releaseName_report (- 1) (Some err) w) =
     out w @
       [\<lparr>out_stream = Stderr, out_format = ''releaseName(): Unknown exit status %d\<newline>'',
         out_args = [ArgInt (- 1)]\<rparr>,
        \<lparr>out_stream = Stderr,
         out_format = ''Could not release name org.DBusTest.SignalTest: %s\<newline>'',
         out_args = [ArgString (message err)]\<rparr>,
        \<lparr>out_stream = Stderr, out_format = ''This program may not terminate...\<newline>'',
         out_args = []\<rparr>]"
    by (simp add: releaseName_report_def g_printerr_def record_call_def dbus_consts)
qed

text \<open>
  Claim C4. \<^verbatim>\<open>releaseName\<close> returns false whatever the release call answers, and
  \<^verbatim>\<open>main\<close> installs it as a timeout source with an interval of 1000 ms: on every run
  that gets its connection and does not stop at the name request, the loop is entered with
  that source as its only timeout, due at 1000 ms, and the call of \<^verbatim>\<open>g_timeout_add\<close>
  is in the trace. In every run, whatever the libraries answer and however long the loop
  runs, the release call is made at most once: exactly once when the loop first sees
  1000 ms or more pass, however much time passes afterwards, and not at all while less
  than 1000 ms have passed.
\<close>

theorem releaseName_one_shot:
  "fst (releaseName e my_data w) = False \<and>
   timeouts (snd (main_setup sc w)) =
     timeouts w @ [\<lparr>ts_interval = 1000, ts_due = now w + 1000, ts_function = ReleaseName,
                    ts_data = GConnectionPtr sc\<rparr>] \<and>
   length (release_calls (calls (snd (main e)))) \<le> 1 \<and>
   (bus_get_reply e = Inr c \<longrightarrow> request_name_reply e \<noteq> - 1 \<longrightarrow>
      (\<exists>proxy w0. main_before_loop e = Inr (proxy, w0) \<and>
         timeouts w0 = [\<lparr>ts_interval = 1000, ts_due = 1000, ts_function = ReleaseName,
                         ts_data = GConnectionPtr c\<rparr>]) \<and>
      Call_g_timeout_add 1000 ReleaseName (GConnectionPtr c) \<in> set (calls (snd (main e)))) \<and>
   (bus_get_reply e = Inr c \<longrightarrow> request_name_reply e \<noteq> - 1 \<longrightarrow>
      events e = Elapse ms # rest \<longrightarrow> 1000 \<le> ms \<longrightarrow>
      release_calls (calls (snd (main e))) =
        [Call_dbus_bus_release_name (Some (dbus_g_connection_get_connection c))
           ''org.DBusTest.SignalTest'' None]) \<and>
   (elapsed (events e) < 1000 \<longrightarrow> release_calls (calls (snd (main e))) = [])"
proof (intro conjI impI)
  show "fst (releaseName e my_data w) = False"
    by (simp add: releaseName_unfold)
  show "timeouts (snd (main_setup sc w)) =
     timeouts w @ [\<lparr>ts_interval = 1000, ts_due = now w + 1000, ts_function = ReleaseName,
                    ts_data = GConnectionPtr sc\<rparr>]"
    by (simp add: main_setup_unfold)
  show "length (release_calls (calls (snd (main e)))) \<le> 1"
    by (rule main_release_calls)
  show "\<exists>proxy w0. main_before_loop e = Inr (proxy, w0) \<and>
         timeouts w0 = [\<lparr>ts_interval = 1000, ts_due = 1000, ts_function = ReleaseName,
                         ts_data = GConnectionPtr c\<rparr>]"
    if "bus_get_reply e = Inr c" "request_name_reply e \<noteq> - 1"
    using main_registers_timeout [OF that] by (rule conjunct1)
  show "Call_g_timeout_add 1000 ReleaseName (GConnectionPtr c) \<in> set (calls (snd (main e)))"
    if "bus_get_reply e = Inr c" "request_name_reply e \<noteq> - 1"
    using main_registers_timeout [OF that] by (rule conjunct2)
  show "release_calls (calls (snd (main e))) =
        [Call_dbus_bus_release_name (Some (dbus_g_connection_get_connection c))
           ''org.DBusTest.SignalTest'' None]"
    if "bus_get_reply e = Inr c" "request_name_reply e \<noteq> - 1"
      "events e = Elapse ms # rest" "1000 \<le> ms"
    using that by (rule main_releases_when_due)
  show "release_calls (calls (snd (main e))) = []" if "elapsed (events e) < 1000"
    using that by (rule main_no_release_before_due)
qed

text \<open>
  The run of \<open>example_env\<close>, where one second passes, and the same run with 999 ms.
\<close>

theorem releaseName_one_shot_witness:
  "Call_g_timeout_add 1000 ReleaseName (GConnectionPtr (DBusGConnection 0))
     \<in> set (calls (snd (main example_env))) \<and>
   release_calls (calls (snd (main example_env))) =
     [Call_dbus_bus_release_name (Some (DBusConnection 0)) ''org.DBusTest.SignalTest'' None] \<and>
   release_calls (calls (snd (main (example_env\<lparr>events := [Elapse 999]\<rparr>)))) = []"
proof -
  have ev: "events example_env =
      Elapse 1000 # [Emit (name_lost_signal ''org.DBusTest.SignalTest'')]" "(1000::nat) \<le> 1000"
    by (simp_all add: example_env_def)
  have early: "elapsed (events (example_env\<lparr>events := [Elapse 999]\<rparr>)) < 1000"
    by simp
  show ?thesis
    using example_env_replies ev
      releaseName_one_shot [of example_env GNull initial_world "DBusGConnection 0"
        "DBusGConnection 0" "1000" "[Emit (name_lost_signal ''org.DBusTest.SignalTest'')]"]
      early
      releaseName_one_shot [of "example_env\<lparr>events := [Elapse 999]\<rparr>" GNull initial_world
        "DBusGConnection 0" "DBusGConnection 0" "999" "[]"]
    by simp
qed

text \<open>
  Claim C5. When the name request answers that the program is the primary owner, the
  release call answers that the name was released, and the loop first sees at least
  1000 ms pass and then receives NameLost from the daemon, the run prints the line
  "We now own the name", then the line "released successfully", then the line
  "We lost our Name", and nothing else; the loop then returns (the last calls are
  \<^verbatim>\<open>g_main_loop_quit\<close> and the release of the proxy) and the status is 0.
\<close>

theorem main_success_scenario:
  assumes "bus_get_reply e = Inr sc"
    and "request_name_reply e = DBUS_REQUEST_NAME_REPLY_PRIMARY_OWNER"
    and "release_name_reply e 0 = DBUS_RELEASE_NAME_REPLY_RELEASED"
    and "events e = Elapse ms # Emit (name_lost_signal lost) # rest"
    and "1000 \<le> ms"
  shows "fst (main e) = Exit 0 \<and>
     out (snd (main e)) =
       [\<lparr>out_stream = Stderr,
         out_format = ''dbus_bus_request_name(): We now own the name org.DBusTest.SignalTest!\<newline>'',
         out_args = []\<rparr>,
        \<lparr>out_stream = Stderr,
         out_format = ''releaseName(): Name org.DBusTest.SignalTest was released successfully\<newline>'',
         out_args = []\<rparr>,
        \<lparr>out_stream = Stdout, out_format = ''!!! We lost our Name !!!\<newline>'', out_args = []\<rparr>] \<and>
     calls (snd (main e)) =
       [Call_g_type_init, Call_dbus_g_bus_get DBUS_BUS_SESSION,
        Call_dbus_g_connection_get_connection sc,
        Call_dbus_bus_request_name (Some (dbus_g_connection_get_connection sc))
          ''org.DBusTest.SignalTest'' DBUS_NAME_FLAG_ALLOW_REPLACEMENT None,
        Call_g_main_loop_new,
        Call_dbus_g_proxy_new_for_name sc
          ''org.freedesktop.DBus'' ''/org/freedesktop/DBus'' ''org.freedesktop.DBus'',
        Call_dbus_g_proxy_add_signal
          \<lparr>proxy_name = ''org.freedesktop.DBus'', proxy_path = ''/org/freedesktop/DBus'',
           proxy_interface = ''org.freedesktop.DBus''\<rparr> ''NameLost'' [G_TYPE_STRING],
        Call_dbus_g_proxy_connect_signal
          \<lparr>proxy_name = ''org.freedesktop.DBus'', proxy_path = ''/org/freedesktop/DBus'',
           proxy_interface = ''org.freedesktop.DBus''\<rparr> ''NameLost'' OnNameLost GNull,
        Call_g_timeout_add 1000 ReleaseName (GConnectionPtr sc),
        Call_g_main_loop_run,
        Call_dbus_bus_release_name (Some (dbus_g_connection_get_connection sc))
          ''org.DBusTest.SignalTest'' None,
        Call_g_main_loop_quit,
        Call_g_object_unref
          \<lparr>proxy_name = ''org.freedesktop.DBus'', proxy_path = ''/org/freedesktop/DBus'',
           proxy_interface = ''org.freedesktop.DBus''\<rparr>]"
proof -
  have ne: "request_name_reply e \<noteq> - 1"
    using assms(2) by (simp add: dbus_consts)
  show ?thesis
    using assms(5)
    by (simp add: main_entered_run [OF assms(1) ne] assms(2,3,4) main_request_report_None
        after_request_def initial_world_def main_setup_unfold Let_def record_call_def
        loop_is_running_def call_source_func_def releaseName_unfold releaseName_report_def
        release_calls_def g_printerr_def g_print_def signal_matches_def name_lost_signal_def
        call_handler_def onNameLost_def g_main_loop_quit_def g_object_unref_def dbus_consts
        main_loop_iterations_stopped)
qed

text \<open>The scenario of \<open>example_env\<close>.\<close>

theorem main_success_scenario_witness:
  "fst (main example_env) = Exit 0 \<and>
   map out_format (out (snd (main example_env))) =
     [''dbus_bus_request_name(): We now own the name org.DBusTest.SignalTest!\<newline>'',
      ''releaseName(): Name org.DBusTest.SignalTest was released successfully\<newline>'',
      ''!!! We lost our Name !!!\<newline>'']"
proof -
  have "bus_get_reply example_env = Inr (DBusGConnection 0)"
    and "request_name_reply example_env = DBUS_REQUEST_NAME_REPLY_PRIMARY_OWNER"
    and "release_name_reply example_env 0 = DBUS_RELEASE_NAME_REPLY_RELEASED"
    and "events example_env =
           Elapse 1000 # Emit (name_lost_signal ''org.DBusTest.SignalTest'') # []"
    and "(1000::nat) \<le> 1000"
    by (simp_all add: example_env_def)
  from main_success_scenario [OF this] show ?thesis by simp
qed

text \<open>
  Claim C6. The status is 1 exactly when the connection fails; it is 0 exactly when the
  loop is entered and returns, and the loop has then been stopped by a call of
  \<^verbatim>\<open>g_main_loop_quit\<close>, which only \<^verbatim>\<open>onNameLost\<close> makes; no run exits with another
  status.
\<close>

theorem main_exit_status:
  "(fst (main e) = Exit 1 \<longleftrightarrow> (\<exists>err. bus_get_reply e = Inl err)) \<and>
   (fst (main e) = Exit 0 \<longleftrightarrow>
      (\<exists>proxy w. main_before_loop e = Inr (proxy, w) \<and> fst (g_main_loop_run e (mainloop w) w))) \<and>
   (fst (main e) = Exit 0 \<longrightarrow> Call_g_main_loop_quit \<in> set (calls (snd (main e)))) \<and>
   (\<forall>n. fst (main e) = Exit n \<longrightarrow> n = 0 \<or> n = 1)"
proof (cases e rule: main_before_loop_cases)
  case (failed err)
  then show ?thesis by (auto simp: main_def)
next
  case (fault sc)
  then show ?thesis by (simp add: main_def)
next
  case (entered sc w5)
  obtain proxy w where pw: "main_setup sc w5 = (proxy, w)" by (cases "main_setup sc w5")
  have before: "main_before_loop e = Inr (proxy, w)" using entered(4) pw by simp
  have "mainloop w \<noteq> None" using main_setup_mainloop [of sc w5] pw by simp
  then have quit: "fst (g_main_loop_run e (mainloop w) w) \<Longrightarrow>
      Call_g_main_loop_quit \<in> set (calls (snd (g_main_loop_run e (mainloop w) w)))"
    by (rule g_main_loop_run_quit)
  show ?thesis
    using quit entered(1)
    by (auto simp: main_entered [OF before] before g_object_unref_def record_call_def)
qed

text \<open>The status of \<open>example_env\<close>, and of the same run without a connection.\<close>

theorem main_exit_status_witness:
  "fst (main example_env) = Exit 0 \<and>
   Call_g_main_loop_quit \<in> set (calls (snd (main example_env))) \<and>
   fst (main (example_env\<lparr>bus_get_reply := Inl \<lparr>g_message = ''no session bus''\<rparr>\<rparr>)) = Exit 1"
proof -
  have failed: "\<exists>err. bus_get_reply (example_env\<lparr>bus_get_reply := Inl \<lparr>g_message = ''no session bus''\<rparr>\<rparr>) = Inl err"
    by simp
  show ?thesis
    using main_example_env_exit failed main_exit_status [of example_env]
      main_exit_status [of "example_env\<lparr>bus_get_reply := Inl \<lparr>g_message = ''no session bus''\<rparr>\<rparr>"]
    by blast
qed

text \<open>
  Claim C7. Whatever it is called with and in whatever state, \<^verbatim>\<open>onNameLost\<close> prints
  the notice on the standard output, calls \<^verbatim>\<open>g_main_loop_quit\<close> and leaves no running
  loop: where the global \<open>mainloop\<close> is set, nothing else changes than the notice, the
  call and the running flag. The global is set whenever the loop is entered.
\<close>

theorem onNameLost_stops_loop:
  "out (onNameLost proxy args data w) =
     out w @ [\<lparr>out_stream = Stdout, out_format = ''!!! We lost our Name !!!\<newline>'', out_args = []\<rparr>] \<and>
   calls (onNameLost proxy args data w) = calls w @ [Call_g_main_loop_quit] \<and>
   \<not> loop_is_running (onNameLost proxy args data w) \<and>
   (\<forall>l. mainloop w = Some l \<longrightarrow>
      onNameLost proxy args data w =
        w\<lparr>mainloop := Some (l\<lparr>is_running := False\<rparr>),
          out := out w @ [\<lparr>out_stream = Stdout, out_format = ''!!! We lost our Name !!!\<newline>'',
                            out_args = []\<rparr>],
          calls := calls w @ [Call_g_main_loop_quit]\<rparr>) \<and>
   (\<forall>e p w0. main_before_loop e = Inr (p, w0) \<longrightarrow> mainloop w0 = Some \<lparr>is_running = False\<rparr>)"
proof (intro conjI allI impI)
  fix e p w0
  assume before: "main_before_loop e = Inr (p, w0)"
  show "mainloop w0 = Some \<lparr>is_running = False\<rparr>"
  proof (cases e rule: main_before_loop_cases)
    case (entered sc w5)
    then show ?thesis using before main_setup_mainloop [of sc w5] by (cases "main_setup sc w5") simp
  qed (use before in auto)
qed (simp_all add: onNameLost_def g_print_def g_main_loop_quit_def record_call_def
      loop_is_running_def Let_def split: option.splits)

text \<open>The callback on a running loop, and the loop of \<open>example_env\<close> at its entry.\<close>

theorem onNameLost_stops_loop_witness:
  "onNameLost \<lparr>proxy_name = ''org.freedesktop.DBus'', proxy_path = ''/org/freedesktop/DBus'',
                proxy_interface = ''org.freedesktop.DBus''\<rparr>
     [GString ''org.DBusTest.SignalTest''] GNull
     (initial_world\<lparr>mainloop := Some \<lparr>is_running = True\<rparr>\<rparr>) =
   initial_world
     \<lparr>mainloop := Some \<lparr>is_running = False\<rparr>,
      out := [\<lparr>out_stream = Stdout, out_format = ''!!! We lost our Name !!!\<newline>'', out_args = []\<rparr>],
      calls := [Call_g_main_loop_quit]\<rparr> \<and>
   (\<exists>p w0. main_before_loop example_env = Inr (p, w0) \<and> mainloop w0 = Some \<lparr>is_running = False\<rparr>)"
proof -
  have set: "mainloop (initial_world\<lparr>mainloop := Some \<lparr>is_running = True\<rparr>\<rparr>) = Some \<lparr>is_running = True\<rparr>"
    by simp
  obtain p w0 where before: "main_before_loop example_env = Inr (p, w0)"
    using main_before_loop_example by (metis surj_pair)
  show ?thesis
    using set before
      onNameLost_stops_loop [of "\<lparr>proxy_name = ''org.freedesktop.DBus'', proxy_path = ''/org/freedesktop/DBus'',
                proxy_interface = ''org.freedesktop.DBus''\<rparr>" "[GString ''org.DBusTest.SignalTest'']" GNull
          "initial_world\<lparr>mainloop := Some \<lparr>is_running = True\<rparr>\<rparr>"]
    by (auto simp: initial_world_def)
qed



text \<open>
  Claim C9. The name request is given the \<^verbatim>\<open>NULL\<close> of line 131 by value, so the
  pointer \<open>dbuserror\<close> is still \<^verbatim>\<open>NULL\<close> after the request, whatever the library
  answers; the case -1 reads its \<^verbatim>\<open>message\<close> field through that null pointer, and a
  run whose request returns -1 ends with this fault.
\<close>

theorem main_request_error_null:
  "fst (snd (dbus_bus_request_name e c nm flags None w)) = None \<and>
   main_request_report (- 1) None w = Inl NullDereference \<and>
   fst (main (e\<lparr>bus_get_reply := Inr sc, request_name_reply := - 1\<rparr>)) = Fault NullDereference"
  by (simp add: dbus_bus_request_name_def main_request_report_None main_def
      main_before_loop_connected [of _ sc])

text \<open>
  Claim C10. \<^verbatim>\<open>releaseName\<close> passes \<^verbatim>\<open>NULL\<close> as the error pointer of the release
  call and reports with the pointer still \<^verbatim>\<open>NULL\<close>. So when the result is -1, what it
  prints is the line of the \<^verbatim>\<open>default\<close> case and the warning of an inconsistency; and
  no invocation, whatever the result, prints the line with the message of an error or the
  warning that the program may not terminate.
\<close>

theorem releaseName_error_always_null:
  "releaseName e my_data w =
     (False,
      releaseName_report (release_name_reply e (length (release_calls (calls w)))) None
        (record_call (Call_dbus_bus_release_name (con w) ''org.DBusTest.SignalTest'' None) w)) \<and>
   (release_name_reply e (length (release_calls (calls w))) = - 1 \<longrightarrow>
      out (snd (releaseName e my_data w)) =
        out w @
          [\<lparr>out_stream = Stderr, out_format = ''releaseName(): Unknown exit status %d\<newline>'',
            out_args = [ArgInt (- 1)]\<rparr>,
           \<lparr>out_stream = Stderr,
            out_format = ''releaseName(): Something fishy. We got an exit status of -1 but error == NULL!\<newline>'',
            out_args = []\<rparr>]) \<and>
   (\<exists>new. out (snd (releaseName e my_data w)) = out w @ new \<and>
      \<lparr>out_stream = Stderr, out_format = ''This program may not terminate...\<newline>'',
       out_args = []\<rparr> \<notin> set new \<and>
      (\<forall>m. \<lparr>out_stream = Stderr,
             out_format = ''Could not release name org.DBusTest.SignalTest: %s\<newline>'',
             out_args = [ArgString m]\<rparr> \<notin> set new))"
proof (intro conjI impI)
  let ?r = "release_name_reply e (length (release_calls (calls w)))"
  let ?w1 = "record_call (Call_dbus_bus_release_name (con w) ''org.DBusTest.SignalTest'' None) w"
  show "releaseName e my_data w = (False, releaseName_report ?r None ?w1)"
    by (rule releaseName_unfold)
  show "out (snd (releaseName e my_data w)) =
        out w @
          [\<lparr>out_stream = Stderr, out_format = ''releaseName(): Unknown exit status %d\<newline>'',
            out_args = [ArgInt (- 1)]\<rparr>,
           \<lparr>out_stream = Stderr,
            out_format = ''releaseName(): Something fishy. We got an exit status of -1 but error == NULL!\<newline>'',
            out_args = []\<rparr>]"
    if "?r = - 1"
    using that by (simp add: releaseName_unfold releaseName_report_None_out record_call_def dbus_consts)
  show "\<exists>new. out (snd (releaseName e my_data w)) = out w @ new \<and>
      \<lparr>out_stream = Stderr, out_format = ''This program may not terminate...\<newline>'',
       out_args = []\<rparr> \<notin> set new \<and>
      (\<forall>m. \<lparr>out_stream = Stderr,
             out_format = ''Could not release name org.DBusTest.SignalTest: %s\<newline>'',
             out_args = [ArgString m]\<rparr> \<notin> set new)"
    by (simp add: releaseName_unfold releaseName_report_None_out record_call_def)
qed

text \<open>An invocation whose release call returns -1.\<close>

theorem releaseName_error_always_null_witness:
  "out (snd (releaseName (example_env\<lparr>release_name_reply := (\<lambda>k. - 1)\<rparr>) GNull initial_world)) =
     [\<lparr>out_stream = Stderr, out_format = ''releaseName(): Unknown exit status %d\<newline>'',
       out_args = [ArgInt (- 1)]\<rparr>,
      \<lparr>out_stream = Stderr,
       out_format = ''releaseName(): Something fishy. We got an exit status of -1 but error == NULL!\<newline>'',
       out_args = []\<rparr>]"
proof -
  have "release_name_reply (example_env\<lparr>release_name_reply := (\<lambda>k. - 1)\<rparr>)
          (length (release_calls (calls initial_world))) = - 1"
    by simp
  with releaseName_error_always_null
      [of "example_env\<lparr>release_name_reply := (\<lambda>k. - 1)\<rparr>" GNull initial_world]
  have "out (snd (releaseName (example_env\<lparr>release_name_reply := (\<lambda>k. - 1)\<rparr>) GNull initial_world)) =
     out initial_world @
     [\<lparr>out_stream = Stderr, out_format = ''releaseName(): Unknown exit status %d\<newline>'',
       out_args = [ArgInt (- 1)]\<rparr>,
      \<lparr>out_stream = Stderr,
       out_format = ''releaseName(): Something fishy. We got an exit status of -1 but error == NULL!\<newline>'',
       out_args = []\<rparr>]"
    by blast
  then show ?thesis by (simp add: initial_world_def)
qed

end
